theory Spec2Isabelle
  imports Complex_Main "HOL-Library.Multiset"
begin

section \<open>JavaScript values used by the sources\<close>

text \<open>
  A JavaScript number is modelled as an exact rational or \<open>NaN\<close>. Arithmetic on
  rationals is exact: the rounding of IEEE-754 doubles, the infinities and the sign of
  zero are outside the model. \<open>NaN\<close> is what arithmetic on \<open>undefined\<close> (a missing
  property) produces, and it is absorbing.
\<close>

datatype number = NaN | Num rat

fun numAdd :: "number \<Rightarrow> number \<Rightarrow> number" where
  "numAdd (Num a) (Num b) = Num (a + b)"
| "numAdd _ _ = NaN"

fun numMul :: "number \<Rightarrow> number \<Rightarrow> number" where
  "numMul (Num a) (Num b) = Num (a * b)"
| "numMul _ _ = NaN"

text \<open>The sources divide by the literal 100 only; a zero divisor gives \<open>NaN\<close> here.\<close>

fun numDiv :: "number \<Rightarrow> number \<Rightarrow> number" where
  "numDiv (Num a) (Num b) = (if b = 0 then NaN else Num (a / b))"
| "numDiv _ _ = NaN"

fun mathFloor :: "number \<Rightarrow> number" where
  "mathFloor (Num a) = Num (of_int \<lfloor>a\<rfloor>)"
| "mathFloor NaN = NaN"

fun mathRound :: "number \<Rightarrow> number" where
  "mathRound (Num a) = Num (of_int \<lfloor>a + 1 / 2\<rfloor>)"
| "mathRound NaN = NaN"

text \<open>\<open>x % 1\<close> used as a condition: true exactly when \<open>x\<close> has a fractional part.\<close>

fun hasFraction :: "number \<Rightarrow> bool" where
  "hasFraction (Num a) = (a \<noteq> of_int \<lfloor>a\<rfloor>)"
| "hasFraction NaN = False"

fun numLess :: "number \<Rightarrow> number \<Rightarrow> bool" where
  "numLess (Num a) (Num b) = (a < b)"
| "numLess _ _ = False"

text \<open>Reading a property of an object: a missing property is \<open>undefined\<close>, which
  becomes \<open>NaN\<close> as soon as it is multiplied.\<close>

definition property :: "(string \<rightharpoonup> number) \<Rightarrow> string \<Rightarrow> number" where
  "property obj k = (case obj k of None \<Rightarrow> NaN | Some v \<Rightarrow> v)"

subsection \<open>Strings\<close>

definition endsWith :: "string \<Rightarrow> char \<Rightarrow> bool" where
  "endsWith s c \<longleftrightarrow> s \<noteq> [] \<and> last s = c"

text \<open>\<open>trim\<close> over the ASCII white space characters (tab, line feed, vertical tab, form
  feed, carriage return, space).\<close>

definition isWhiteSpace :: "char \<Rightarrow> bool" where
  "isWhiteSpace c \<longleftrightarrow> c \<in> {CHR 0x09, CHR 0x0A, CHR 0x0B, CHR 0x0C, CHR 0x0D, CHR 0x20}"

definition trim :: "string \<Rightarrow> string" where
  "trim s = rev (dropWhile isWhiteSpace (rev (dropWhile isWhiteSpace s)))"

text \<open>\<open>value.replace(/[+%]/g, '')\<close>\<close>

definition stripPlusPercent :: "string \<Rightarrow> string" where
  "stripPlusPercent s = filter (\<lambda>c. c \<noteq> CHR ''+'' \<and> c \<noteq> CHR ''%'') s"

subsection \<open>Conversions between strings and numbers\<close>

text \<open>
  The two conversions of the language are parameters of the model: \<open>toNumber\<close> is the
  unary \<open>+\<close> applied to a string, \<open>toStr\<close> is a number inside a template literal.
  The language guarantees that a number printed and read back is the same number; the
  only \<open>+\<close> a printed number can contain is the sign of an exponent, whose removal does
  not change what is read back, and it never contains a percent sign. \<open>roundTrips\<close>
  states that guarantee at one number.
\<close>

record runtime =
  toNumber :: "string \<Rightarrow> number"
  toStr :: "number \<Rightarrow> string"

definition roundTrips :: "runtime \<Rightarrow> number \<Rightarrow> bool" where
  "roundTrips rt x \<longleftrightarrow>
     CHR ''%'' \<notin> set (toStr rt x) \<and> toNumber rt (stripPlusPercent (toStr rt x)) = x"

text \<open>
  A runtime for decimal notation, used to evaluate the model on concrete inputs: an
  optional minus sign, digits, and an optional fraction. The empty string reads as 0 and
  anything else as \<open>NaN\<close>. Fractions are printed to at most 20 places.
\<close>

definition digitChar :: "nat \<Rightarrow> char" where
  "digitChar d = char_of (48 + d)"

fun showNat :: "nat \<Rightarrow> string" where
  "showNat n = (if n < 10 then [digitChar n] else showNat (n div 10) @ [digitChar (n mod 10)])"

declare showNat.simps [simp del]

fun showFraction :: "nat \<Rightarrow> rat \<Rightarrow> string" where
  "showFraction 0 f = []"
| "showFraction (Suc k) f =
     (if f = 0 then []
      else digitChar (nat \<lfloor>f * 10\<rfloor>) # showFraction k (f * 10 - of_int \<lfloor>f * 10\<rfloor>))"

definition showRat :: "rat \<Rightarrow> string" where
  "showRat a =
     (let m = \<bar>a\<bar>;
          whole = showNat (nat \<lfloor>m\<rfloor>);
          frac = showFraction 20 (m - of_int \<lfloor>m\<rfloor>)
      in (if a < 0 then ''-'' else '''') @ whole @ (if frac = [] then [] else ''.'' @ frac))"

definition isDigit :: "char \<Rightarrow> bool" where
  "isDigit c \<longleftrightarrow> 48 \<le> (of_char c :: nat) \<and> (of_char c :: nat) \<le> 57"

definition readNat :: "string \<Rightarrow> nat" where
  "readNat ds = foldl (\<lambda>n c. 10 * n + ((of_char c :: nat) - 48)) 0 ds"

definition readUnsigned :: "string \<Rightarrow> number" where
  "readUnsigned s =
     (let whole = takeWhile (\<lambda>c. c \<noteq> CHR ''.'') s;
          rest = dropWhile (\<lambda>c. c \<noteq> CHR ''.'') s;
          frac = tl rest
      in if (whole = [] \<and> frac = []) \<or> \<not> list_all isDigit whole \<or> \<not> list_all isDigit frac
         then NaN
         else Num (of_nat (readNat whole) + of_nat (readNat frac) / 10 ^ length frac))"

definition readDecimal :: "string \<Rightarrow> number" where
  "readDecimal s =
     (case s of
        [] \<Rightarrow> Num 0
      | c # cs \<Rightarrow>
          if c = CHR ''-'' then numMul (Num (- 1)) (readUnsigned cs) else readUnsigned s)"

definition showNumber :: "number \<Rightarrow> string" where
  "showNumber x = (case x of NaN \<Rightarrow> ''NaN'' | Num a \<Rightarrow> showRat a)"

definition decimalRuntime :: runtime where
  "decimalRuntime = \<lparr>toNumber = readDecimal, toStr = showNumber\<rparr>"

section \<open>Stat.js\<close>

record stat =
  displayModifier :: string
  type :: string
  displayType :: string
  rawValue :: string
  "value" :: number
  isPercent :: bool
  rolls :: int
  displayValue :: string

text \<open>A list of stat types that can be either a flat value or a percent.\<close>

definition mixedTypes :: "string list" where
  "mixedTypes = [''Health'', ''Protection'', ''Offense'', ''Physical Damage'',
     ''Special Damage'', ''Speed'', ''Defense'', ''Armor'', ''Resistance'']"


definition secondaryUpgradeFactors :: "(string \<times> rat) list" where
  "secondaryUpgradeFactors = [
     (''Offense %'', 302 / 100),
     (''Defense %'', 234 / 100),
     (''Health %'', 186 / 100),
     (''Defense'', 163 / 100),
     (''Tenacity %'', 133 / 100),
     (''Potency %'', 133 / 100),
     (''Protection %'', 133 / 100),
     (''Health'', 126 / 100),
     (''Protection'', 111 / 100),
     (''Offense'', 110 / 100),
     (''Critical Chance %'', 104 / 100)]"

text \<open>\<open>updateDisplayValue\<close>: the value, rounded to two places when it has a fraction.\<close>

definition updateDisplayValue :: "runtime \<Rightarrow> stat \<Rightarrow> stat" where
  "updateDisplayValue rt s =
     s\<lparr>displayValue :=
         toStr rt (if hasFraction (value s)
                   then numDiv (mathRound (numMul (value s) (Num 100))) (Num 100)
                   else value s)\<rparr>"

text \<open>\<open>new Stat(type, value, rolls)\<close>; \<open>rolls\<close> defaults to 1 at the call sites that
  omit it.\<close>

definition constructor :: "runtime \<Rightarrow> string \<Rightarrow> string \<Rightarrow> int \<Rightarrow> stat" where
  "constructor rt ty val rls =
     (let dm = (if endsWith ty CHR ''%'' \<or> endsWith val CHR ''%'' then ''%'' else '''');
          dt = (if endsWith ty CHR ''%'' then trim (butlast ty) else ty);
          raw = stripPlusPercent val
      in updateDisplayValue rt
           \<lparr>displayModifier = dm,
            type = ty,
            displayType = dt,
            rawValue = raw,
            value = toNumber rt raw,
            isPercent = (''%'' = dm \<and> dt \<in> set mixedTypes),
            rolls = rls,
            displayValue = ''''\<rparr>)"

text \<open>\<open>serialize\<close>: the type, the value as a string, and the rolls.\<close>

definition serialize :: "stat \<Rightarrow> string \<times> string \<times> int" where
  "serialize s =
     (let percent = (if (isPercent s \<or> displayType s \<notin> set mixedTypes) \<and> CHR ''%'' \<notin> set (type s)
                     then ''%'' else '''')
      in (type s, ''+'' @ rawValue s @ percent, rolls s))"

subsection \<open>Characters and their targets\<close>

text \<open>
  Modelled from the spec: the classes Character, OptimizerSettings and OptimizationPlan
  are not among the sources. Their data follows the data model of the specification: a
  target has a name, a weight per stat, an optional set restriction and optional stat
  caps; the optimizer settings hold the current target, the list of named targets, the
  minimum quality, the slicing flag and the lock state; a character has an identifier,
  its player values (with base stats that may be absent) and its optimizer settings.
  The sources read \<open>target[statType]\<close> for the weight of a stat, and
  \<open>playerValues.baseStats[statType]\<close> for a base stat.
\<close>

record optimizationPlan =
  name :: string
  weight :: "string \<rightharpoonup> number"
  setRestriction :: "string list option"
  cap :: "string \<rightharpoonup> number"

datatype lockState = Locked | Unlocked

record optimizerSettings =
  target :: optimizationPlan
  targets :: "optimizationPlan list"
  minimumModDots :: nat
  sliceMods :: bool
  lockState :: lockState

record playerValues =
  baseStats :: "(string \<rightharpoonup> number) option"

record character =
  baseID :: string
  playerValues :: playerValues
  optimizerSettings :: optimizerSettings

subsection \<open>Errors\<close>

text \<open>
  The two errors that \<open>plus\<close> throws, the error of \<open>getFlatValuesForCharacter\<close>
  (with the character's id, which its message shows), and the \<open>TypeError\<close> of the
  language for a method call or a property read on \<open>undefined\<close>. \<open>UndefinedEntry\<close> is not
  an exception: it stands for a selected-characters list that would hold \<open>undefined\<close>,
  which the lists of this model cannot.
\<close>

datatype error =
    NonStatOperand
  | DifferentTypes
  | NoBaseStats string
  | TypeError
  | UndefinedEntry

subsection \<open>Methods of Stat\<close>

text \<open>The argument of \<open>plus\<close>: a Stat, or any other value.\<close>

datatype operand = StatValue stat | NotAStat

definition statPlus :: "runtime \<Rightarrow> stat \<Rightarrow> operand \<Rightarrow> error + stat" where
  "statPlus rt self that =
     (case that of
        NotAStat \<Rightarrow> Inl NonStatOperand
      | StatValue other \<Rightarrow>
          if displayType other \<noteq> displayType self \<or> isPercent other \<noteq> isPercent self
          then Inl DifferentTypes
          else
            (let valueSum = numAdd (value self) (value other)
             in Inr (constructor rt (type self) (toStr rt valueSum @ displayModifier self) 1)))"





definition upgradeSecondary :: "runtime \<Rightarrow> stat \<Rightarrow> stat" where
  "upgradeSecondary rt s =
     (case map_of secondaryUpgradeFactors (type s) of
        Some factor \<Rightarrow> constructor rt (type s) (toStr rt (numMul (Num factor) (value s))) 1
      | None \<Rightarrow>
          if ''Speed'' = type s
          then constructor rt (type s) (toStr rt (numAdd (value s) (Num 1))) 1
          else s)"

text \<open>\<open>reduce((a, b) => a + b, 0)\<close>\<close>

definition reduceSum :: "number list \<Rightarrow> number" where
  "reduceSum xs = foldl numAdd (Num 0) xs"

text \<open>The stat types that a stat counts for (the constant \<open>statTypes\<close> of
  \<open>getOptimizationValue\<close>): \<open>critChance\<close> alone for physical critical chance, the
  entry of \<open>statTypeMap\<close> otherwise.\<close>

definition optimizationStatTypes :: "(string \<rightharpoonup> string list) \<Rightarrow> stat \<Rightarrow> string list option" where
  "optimizationStatTypes statTypeMap s =
     (if displayType s = ''Physical Critical Chance'' then Some [''critChance'']
      else statTypeMap (displayType s))"

text \<open>For a percent stat of a character without base stats, reading a base stat is a
  \<open>TypeError\<close>, thrown by the first call of the callback.\<close>

definition getOptimizationValue ::
  "(string \<rightharpoonup> string list) \<Rightarrow> stat \<Rightarrow> character \<Rightarrow> error + number" where
  "getOptimizationValue statTypeMap s ch =
     (if displayType s = ''Special Critical Chance'' then Inr (Num 0)
      else
        (case optimizationStatTypes statTypeMap s of
           None \<Rightarrow> Inl TypeError
         | Some statTypes \<Rightarrow>
             let tgt = weight (target (optimizerSettings ch))
             in if isPercent s
                then
                  (case baseStats (playerValues ch) of
                     None \<Rightarrow> if statTypes = [] then Inr (Num 0) else Inl TypeError
                   | Some bs \<Rightarrow>
                       Inr (reduceSum (map (\<lambda>statType.
                              numMul (property tgt statType)
                                (mathFloor (numDiv (numMul (property bs statType) (value s))
                                                   (Num 100))))
                            statTypes)))
                else
                  Inr (reduceSum (map (\<lambda>statType. numMul (property tgt statType) (value s))
                         statTypes))))"

section \<open>Actions on the selected characters of a profile\<close>

text \<open>
  Modelled from the spec: the class PlayerProfile is not among the sources. A profile
  holds the characters by id, the ordered list of selected characters, each an id paired
  with a target, and the global settings. \<open>withSelectedCharacters\<close>,
  \<open>withCharacters\<close> and \<open>withOptimizerSettings\<close> return a copy with that one field
  replaced; \<open>unlock\<close> returns a copy of the settings whose lock state is Unlocked.
  Each action below is the function that the source hands to \<open>updateProfile\<close>.
  Indices are positions in a list, hence natural numbers.
\<close>

record globalSettings =
  modChangeThreshold :: number
  lockUnselectedCharacters :: bool

type_synonym selectedCharacter = "string \<times> optimizationPlan"

record profile =
  characters :: "string \<rightharpoonup> character"
  selectedCharacters :: "selectedCharacter list"
  globalSettings :: globalSettings

definition withSelectedCharacters :: "profile \<Rightarrow> selectedCharacter list \<Rightarrow> profile" where
  "withSelectedCharacters p xs = p\<lparr>selectedCharacters := xs\<rparr>"

definition withCharacters :: "profile \<Rightarrow> (string \<rightharpoonup> character) \<Rightarrow> profile" where
  "withCharacters p cs = p\<lparr>characters := cs\<rparr>"

definition withOptimizerSettings :: "character \<Rightarrow> optimizerSettings \<Rightarrow> character" where
  "withOptimizerSettings c os = c\<lparr>optimizerSettings := os\<rparr>"

definition unlock :: "optimizerSettings \<Rightarrow> optimizerSettings" where
  "unlock os = os\<lparr>lockState := Unlocked\<rparr>"

text \<open>\<open>xs.splice(start, deleteCount, ...items)\<close> on a copy of the list: the removed
  elements and the new list. \<open>start\<close> and \<open>deleteCount\<close> are clamped to the list.\<close>

definition arraySplice :: "'a list \<Rightarrow> nat \<Rightarrow> nat \<Rightarrow> 'a list \<Rightarrow> 'a list \<times> 'a list" where
  "arraySplice xs start deleteCount items =
     (let st = min start (length xs);
          d = min deleteCount (length xs - st)
      in (take d (drop st xs), take st xs @ items @ drop (st + d) xs))"

text \<open>\<open>toIndex\<close> is a number or \<open>null\<close>. With \<open>fromIndex\<close> beyond the list nothing is
  removed and \<open>oldValue\<close> is \<open>undefined\<close>.\<close>

definition moveSelectedCharacter :: "nat \<Rightarrow> nat option \<Rightarrow> profile \<Rightarrow> error + profile" where
  "moveSelectedCharacter fromIndex toIndex p =
     (if Some fromIndex = toIndex then Inr p
      else
        (case arraySplice (selectedCharacters p) fromIndex 1 [] of
           ([], _) \<Rightarrow> Inl UndefinedEntry
         | (oldValue # _, newSelectedCharacters) \<Rightarrow>
             (case toIndex of
                None \<Rightarrow> Inr (withSelectedCharacters p ([oldValue] @ newSelectedCharacters))
              | Some to \<Rightarrow>
                  if fromIndex < to
                  then Inr (withSelectedCharacters p
                              (snd (arraySplice newSelectedCharacters to 0 [oldValue])))
                  else Inr (withSelectedCharacters p
                              (snd (arraySplice newSelectedCharacters (to + 1) 0 [oldValue]))))))"

definition unselectCharacter :: "nat \<Rightarrow> profile \<Rightarrow> error + profile" where
  "unselectCharacter characterIndex p =
     (if length (selectedCharacters p) > characterIndex
      then
        (case arraySplice (selectedCharacters p) characterIndex 1 [] of
           ([], _) \<Rightarrow> Inl TypeError
         | (oldValue # _, newSelectedCharacters) \<Rightarrow>
             (case characters p (fst oldValue) of
                None \<Rightarrow> Inl TypeError
              | Some oldCharacter \<Rightarrow>
                  Inr (withCharacters (withSelectedCharacters p newSelectedCharacters)
                         ((characters p)(fst oldValue \<mapsto>
                            withOptimizerSettings oldCharacter
                              (unlock (optimizerSettings oldCharacter)))))))
      else Inr p)"

definition changeCharacterTarget :: "nat \<Rightarrow> optimizationPlan \<Rightarrow> profile \<Rightarrow> error + profile" where
  "changeCharacterTarget characterIndex tgt p =
     (if characterIndex \<ge> length (selectedCharacters p) then Inr p
      else
        (case arraySplice (selectedCharacters p) characterIndex 1 [] of
           ([], _) \<Rightarrow> Inl UndefinedEntry
         | (oldValue # _, newSelectedCharacters) \<Rightarrow>
             Inr (withSelectedCharacters p
                    (snd (arraySplice newSelectedCharacters characterIndex 0 [(fst oldValue, tgt)])))))"

text \<open>\<open>withTarget\<close>, a method of the optimizer settings that is not among the sources,
  is a parameter. The new character is stored under its own \<open>baseID\<close>.\<close>

definition finishEditCharacterTarget ::
  "(optimizerSettings \<Rightarrow> optimizationPlan \<Rightarrow> optimizerSettings) \<Rightarrow>
   nat \<Rightarrow> optimizationPlan \<Rightarrow> profile \<Rightarrow> error + profile" where
  "finishEditCharacterTarget withTarget characterIndex newTarget p =
     (if characterIndex \<ge> length (selectedCharacters p) then Inr p
      else
        (case arraySplice (selectedCharacters p) characterIndex 1 [] of
           ([], _) \<Rightarrow> Inl TypeError
         | (oldValue # _, rest) \<Rightarrow>
             (let characterID = fst oldValue;
                  newSelectedCharacters = snd (arraySplice rest characterIndex 0 [(characterID, newTarget)])
              in case characters p characterID of
                   None \<Rightarrow> Inl TypeError
                 | Some oldCharacter \<Rightarrow>
                     (let newCharacter = withOptimizerSettings oldCharacter
                                           (withTarget (optimizerSettings oldCharacter) newTarget)
                      in Inr (withSelectedCharacters
                                (withCharacters p ((characters p)(baseID newCharacter \<mapsto> newCharacter)))
                                newSelectedCharacters)))))"

section \<open>Values that the specification names\<close>

text \<open>The value of a sliced secondary stat: the factor of the type times the value, the
  value plus 1 for \<open>Speed\<close>, the value itself otherwise.\<close>

definition slicedValue :: "stat \<Rightarrow> number" where
  "slicedValue s =
     (case map_of secondaryUpgradeFactors (type s) of
        Some factor \<Rightarrow> numMul (Num factor) (value s)
      | None \<Rightarrow> if type s = ''Speed'' then numAdd (value s) (Num 1) else value s)"



text \<open>The weighted sum over a list of stat types: the weight of the target for the type
  times the contribution to the type.\<close>

fun weightedSum :: "(string \<rightharpoonup> number) \<Rightarrow> (string \<Rightarrow> number) \<Rightarrow> string list \<Rightarrow> number" where
  "weightedSum w c [] = Num 0"
| "weightedSum w c (t # ts) = numAdd (numMul (property w t) (c t)) (weightedSum w c ts)"


section \<open>Example data\<close>

text \<open>A small stat type map, a target, and a character with base stats, for evaluating
  the model on concrete inputs.\<close>

definition exampleStatTypeMap :: "string \<rightharpoonup> string list" where
  "exampleStatTypeMap = map_of [
     (''Health'', [''health'']),
     (''Speed'', [''speed'']),
     (''Offense'', [''physDmg'', ''specDmg'']),
     (''Physical Critical Chance'', [''physCritChance'']),
     (''Special Critical Chance'', [''specCritChance''])]"

definition exampleTarget :: optimizationPlan where
  "exampleTarget =
     \<lparr>name = ''Speedy'',
      weight = map_of [(''health'', Num 1), (''speed'', Num 1), (''physDmg'', Num 2),
                       (''specDmg'', Num 1), (''critChance'', Num 3),
                       (''specCritChance'', Num 2)],
      setRestriction = None,
      cap = map_of [(''speed'', Num 50)]\<rparr>"

definition exampleCharacter :: character where
  "exampleCharacter =
     \<lparr>baseID = ''VADER'',
      playerValues = \<lparr>baseStats = Some (map_of [(''health'', Num 1050), (''speed'', Num 150),
                                                 (''physDmg'', Num 1000), (''specDmg'', Num 500)])\<rparr>,
      optimizerSettings =
        \<lparr>target = exampleTarget, targets = [exampleTarget], minimumModDots = 1,
         sliceMods = False, lockState = Locked\<rparr>\<rparr>"

text \<open>A profile with two characters and three selected entries.\<close>

definition exampleProfile :: profile where
  "exampleProfile =
     \<lparr>characters = map_of [(''VADER'', exampleCharacter),
                           (''LUKE'', exampleCharacter\<lparr>baseID := ''LUKE''\<rparr>)],
      selectedCharacters = [(''VADER'', exampleTarget),
                            (''LUKE'', exampleTarget\<lparr>name := ''Tanky''\<rparr>),
                            (''VADER'', exampleTarget\<lparr>name := ''Tanky''\<rparr>)],
      globalSettings = \<lparr>modChangeThreshold = Num 0, lockUnselectedCharacters = False\<rparr>\<rparr>"

section \<open>Properties of Stat.js\<close>

lemma stripPlusPercent_append:
  "stripPlusPercent (a @ b) = stripPlusPercent a @ stripPlusPercent b"
  by (simp add: stripPlusPercent_def)

lemma stripPlusPercent_idem: "stripPlusPercent (stripPlusPercent s) = stripPlusPercent s"
  by (simp add: stripPlusPercent_def)

lemma constructor_type: "type (constructor rt ty val rls) = ty"
  by (simp add: constructor_def updateDisplayValue_def Let_def)

lemma constructor_rolls: "rolls (constructor rt ty val rls) = rls"
  by (simp add: constructor_def updateDisplayValue_def Let_def)

lemma constructor_rawValue: "rawValue (constructor rt ty val rls) = stripPlusPercent val"
  by (simp add: constructor_def updateDisplayValue_def Let_def)

lemma constructor_value: "value (constructor rt ty val rls) = toNumber rt (stripPlusPercent val)"
  by (simp add: constructor_def updateDisplayValue_def Let_def)

lemma serialize_value_stripped:
  "stripPlusPercent (fst (snd (serialize s))) = stripPlusPercent (rawValue s)"
  by (simp add: serialize_def Let_def stripPlusPercent_def)

text \<open>
  Claim C10. For every Stat \<open>s\<close> (an object made by the constructor from any type string,
  value string and roll count), constructing a new Stat from the three components that
  \<open>s.serialize()\<close> returns gives a Stat with the same type, the same numeric value and
  the same roll count as \<open>s\<close>.
\<close>

theorem serialize_constructor_roundtrip:
  "(let s = constructor rt ty val rls;
        (t', v', r') = serialize s;
        s' = constructor rt t' v' r'
    in type s' = type s \<and> value s' = value s \<and> rolls s' = rolls s)"
proof -
  let ?s = "constructor rt ty val rls"
  obtain t' v' r' where ser: "serialize ?s = (t', v', r')"
    by (cases "serialize ?s") auto
  have t: "t' = ty"
    using ser by (simp add: serialize_def Let_def constructor_type)
  have r: "r' = rls"
    using ser by (simp add: serialize_def Let_def constructor_rolls)
  have "stripPlusPercent v' = stripPlusPercent (rawValue ?s)"
    using serialize_value_stripped [of ?s] ser by simp
  then have v: "stripPlusPercent v' = stripPlusPercent val"
    by (simp add: constructor_rawValue stripPlusPercent_idem)
  show ?thesis
    using ser t r v
    by (simp add: Let_def constructor_type constructor_rolls constructor_value)
qed

lemma constructor_displayModifier:
  "displayModifier (constructor rt ty val rls) =
     (if endsWith ty CHR ''%'' \<or> endsWith val CHR ''%'' then ''%'' else '''')"
  by (simp add: constructor_def updateDisplayValue_def Let_def)

lemma constructor_displayType:
  "displayType (constructor rt ty val rls) =
     (if endsWith ty CHR ''%'' then trim (butlast ty) else ty)"
  by (simp add: constructor_def updateDisplayValue_def Let_def)

lemma constructor_isPercent:
  "isPercent (constructor rt ty val rls) \<longleftrightarrow>
     (endsWith ty CHR ''%'' \<or> endsWith val CHR ''%'') \<and>
     (if endsWith ty CHR ''%'' then trim (butlast ty) else ty) \<in> set mixedTypes"
  by (simp add: constructor_def updateDisplayValue_def Let_def)

lemma stripPlusPercent_displayModifier:
  "stripPlusPercent (displayModifier (constructor rt ty val rls)) = []"
  by (simp add: constructor_displayModifier stripPlusPercent_def)

lemma value_constructor_printed:
  assumes "roundTrips rt x" and "stripPlusPercent suffix = []"
  shows "value (constructor rt ty (toStr rt x @ suffix) r) = x"
  using assms by (simp add: constructor_value stripPlusPercent_append roundTrips_def)

lemma value_constructor_printed0:
  assumes "roundTrips rt x"
  shows "value (constructor rt ty (toStr rt x) r) = x"
  using value_constructor_printed [OF assms, of "[]"] by (simp add: stripPlusPercent_def)

text \<open>
  Claim C6. For every two Stats, \<open>plus\<close> raises an error exactly when the argument is
  not a Stat or the two stats differ in display type or in percent-ness; when it
  succeeds, it returns a new Stat with the receiver's type whose numeric value is the sum
  of the numeric values of the two operands. The receiver is any Stat made by the
  constructor, the other Stat is any record; the sum is a number that survives printing
  and reading back.
\<close>

theorem plus_spec:
  assumes self: "self = constructor rt ty val rls"
      and rtp: "roundTrips rt (numAdd (value self) (value other))"
  shows "statPlus rt self NotAStat = Inl NonStatOperand
       \<and> ((\<exists>e. statPlus rt self (StatValue other) = Inl e) \<longleftrightarrow>
            (displayType other \<noteq> displayType self \<or> isPercent other \<noteq> isPercent self))
       \<and> (\<forall>r. statPlus rt self (StatValue other) = Inr r \<longrightarrow>
            type r = type self \<and> value r = numAdd (value self) (value other))"
proof (intro conjI allI impI)
  show "statPlus rt self NotAStat = Inl NonStatOperand"
    by (simp add: statPlus_def)
next
  show "(\<exists>e. statPlus rt self (StatValue other) = Inl e) \<longleftrightarrow>
          (displayType other \<noteq> displayType self \<or> isPercent other \<noteq> isPercent self)"
    by (simp add: statPlus_def Let_def)
next
  fix r
  assume ok: "statPlus rt self (StatValue other) = Inr r"
  then have r: "r = constructor rt (type self)
                     (toStr rt (numAdd (value self) (value other)) @ displayModifier self) 1"
    by (simp add: statPlus_def Let_def split: if_splits)
  show "type r = type self"
    by (simp add: r constructor_type)
  have "stripPlusPercent (displayModifier self) = []"
    by (simp add: self stripPlusPercent_displayModifier)
  with rtp show "value r = numAdd (value self) (value other)"
    by (simp add: r value_constructor_printed)
qed

theorem plus_spec_witness:
  "roundTrips decimalRuntime (Num 15)
   \<and> (\<exists>r. statPlus decimalRuntime (constructor decimalRuntime ''Speed'' ''10'' 1)
             (StatValue (constructor decimalRuntime ''Speed'' ''+5'' 2)) = Inr r
          \<and> type r = ''Speed'' \<and> value r = Num 15)"
proof -
  let ?a = "constructor decimalRuntime ''Speed'' ''10'' 1"
  let ?b = "constructor decimalRuntime ''Speed'' ''+5'' 2"
  have sum: "numAdd (value ?a) (value ?b) = Num 15"
    by code_simp
  have rtp: "roundTrips decimalRuntime (Num 15)"
    by code_simp
  have same: "\<not> (displayType ?b \<noteq> displayType ?a \<or> isPercent ?b \<noteq> isPercent ?a)"
    by code_simp
  have ty: "type ?a = ''Speed''"
    by (simp add: constructor_type)
  note spec = plus_spec [of ?a decimalRuntime "''Speed''" "''10''" 1 ?b, OF refl, unfolded sum, OF rtp]
  from spec same have "\<not> (\<exists>e. statPlus decimalRuntime ?a (StatValue ?b) = Inl e)"
    by blast
  then obtain r where r: "statPlus decimalRuntime ?a (StatValue ?b) = Inr r"
    by (cases "statPlus decimalRuntime ?a (StatValue ?b)") auto
  with spec have "type r = type ?a \<and> value r = Num 15"
    by blast
  with r ty rtp show ?thesis
    by auto
qed

lemma factor_ge_1: "map_of secondaryUpgradeFactors ty = Some f \<Longrightarrow> 1 \<le> f"
  by (drule map_of_SomeD) (auto simp: secondaryUpgradeFactors_def)

lemma slicedValue_not_lower:
  assumes "\<not> numLess (value s) (Num 0)"
  shows "\<not> numLess (slicedValue s) (value s)"
proof (cases "value s")
  case NaN
  then show ?thesis by (simp add: slicedValue_def split: option.splits)
next
  case (Num v)
  with assms have v: "0 \<le> v" by simp
  show ?thesis
  proof (cases "map_of secondaryUpgradeFactors (type s)")
    case None
    then show ?thesis using Num by (simp add: slicedValue_def)
  next
    case (Some f)
    then have "1 \<le> f" by (rule factor_ge_1)
    with v have "v \<le> f * v"
      using mult_right_mono [of 1 f v] by simp
    then show ?thesis using Num Some by (simp add: slicedValue_def)
  qed
qed

text \<open>
  Claim C5, amended. For every secondary Stat, \<open>upgradeSecondary\<close> returns a Stat of the
  same type whose value is the factor of the type times the original value when the type
  has a configured factor, the original value plus 1 when the type is \<open>Speed\<close>, and the
  unchanged original Stat for every other type; for a Stat whose value is not below
  zero, the sliced value is not lower than the original.
\<close>

theorem upgradeSecondary_spec:
  assumes rtp: "map_of secondaryUpgradeFactors (type s) \<noteq> None \<or> type s = ''Speed''
                  \<longrightarrow> roundTrips rt (slicedValue s)"
  shows "type (upgradeSecondary rt s) = type s
       \<and> value (upgradeSecondary rt s) = slicedValue s
       \<and> (map_of secondaryUpgradeFactors (type s) = None \<and> type s \<noteq> ''Speed''
            \<longrightarrow> upgradeSecondary rt s = s)
       \<and> (\<not> numLess (value s) (Num 0)
            \<longrightarrow> \<not> numLess (value (upgradeSecondary rt s)) (value s))"
proof -
  have ty: "type (upgradeSecondary rt s) = type s"
    by (simp add: upgradeSecondary_def constructor_type split: option.splits)
  have val: "value (upgradeSecondary rt s) = slicedValue s"
  proof (cases "map_of secondaryUpgradeFactors (type s)")
    case (Some f)
    with rtp have "roundTrips rt (numMul (Num f) (value s))"
      by (simp add: slicedValue_def)
    then show ?thesis
      using Some by (simp add: upgradeSecondary_def slicedValue_def value_constructor_printed0)
  next
    case None
    show ?thesis
    proof (cases "type s = ''Speed''")
      case True
      with rtp None have "roundTrips rt (numAdd (value s) (Num 1))"
        by (simp add: slicedValue_def)
      then show ?thesis
        using None True
        by (simp add: upgradeSecondary_def slicedValue_def value_constructor_printed0)
    next
      case False
      then show ?thesis
        using None by (auto simp add: upgradeSecondary_def slicedValue_def)
    qed
  qed
  have same: "map_of secondaryUpgradeFactors (type s) = None \<and> type s \<noteq> ''Speed''
                \<longrightarrow> upgradeSecondary rt s = s"
    by (auto simp add: upgradeSecondary_def)
  have "\<not> numLess (value s) (Num 0) \<longrightarrow> \<not> numLess (value (upgradeSecondary rt s)) (value s)"
    using val slicedValue_not_lower [of s] by simp
  with ty val same show ?thesis by blast
qed

text \<open>
  Claim C5 as stated fails for a negative value: slicing an \<open>Offense\<close> stat of -10
  multiplies it by 1.10 and gives -11, which is lower.
\<close>

theorem upgradeSecondary_counterexample:
  "numLess (value (upgradeSecondary decimalRuntime (constructor decimalRuntime ''Offense'' ''-10'' 1)))
           (value (constructor decimalRuntime ''Offense'' ''-10'' 1))"
  by code_simp

theorem upgradeSecondary_spec_witness:
  "value (upgradeSecondary decimalRuntime (constructor decimalRuntime ''Health'' ''100'' 3)) = Num 126
   \<and> value (upgradeSecondary decimalRuntime (constructor decimalRuntime ''Speed'' ''5'' 2)) = Num 6
   \<and> upgradeSecondary decimalRuntime (constructor decimalRuntime ''Potency'' ''1.5%'' 2)
       = constructor decimalRuntime ''Potency'' ''1.5%'' 2
   \<and> \<not> numLess (value (upgradeSecondary decimalRuntime (constructor decimalRuntime ''Health'' ''100'' 3)))
                (value (constructor decimalRuntime ''Health'' ''100'' 3))"
proof -
  let ?h = "constructor decimalRuntime ''Health'' ''100'' 3"
  let ?s = "constructor decimalRuntime ''Speed'' ''5'' 2"
  let ?p = "constructor decimalRuntime ''Potency'' ''1.5%'' 2"
  have h: "slicedValue ?h = Num 126" by code_simp
  have s: "slicedValue ?s = Num 6" by code_simp
  have rh: "roundTrips decimalRuntime (slicedValue ?h)" by code_simp
  have rs: "roundTrips decimalRuntime (slicedValue ?s)" by code_simp
  have p: "map_of secondaryUpgradeFactors (type ?p) = None \<and> type ?p \<noteq> ''Speed''"
    by code_simp
  have nn: "\<not> numLess (value ?h) (Num 0)" by code_simp
  have A: "type (upgradeSecondary decimalRuntime ?h) = type ?h
       \<and> value (upgradeSecondary decimalRuntime ?h) = slicedValue ?h
       \<and> (map_of secondaryUpgradeFactors (type ?h) = None \<and> type ?h \<noteq> ''Speed''
            \<longrightarrow> upgradeSecondary decimalRuntime ?h = ?h)
       \<and> (\<not> numLess (value ?h) (Num 0)
            \<longrightarrow> \<not> numLess (value (upgradeSecondary decimalRuntime ?h)) (value ?h))"
    using upgradeSecondary_spec [of ?h decimalRuntime] rh by blast
  then have "value (upgradeSecondary decimalRuntime ?h) = slicedValue ?h"
    by blast
  also note h
  finally have 1: "value (upgradeSecondary decimalRuntime ?h) = Num 126" .
  from A nn have 4: "\<not> numLess (value (upgradeSecondary decimalRuntime ?h)) (value ?h)"
    by blast
  have "value (upgradeSecondary decimalRuntime ?s) = slicedValue ?s"
    using upgradeSecondary_spec [of ?s decimalRuntime] rs by blast
  also note s
  finally have 2: "value (upgradeSecondary decimalRuntime ?s) = Num 6" .
  have pre: "map_of secondaryUpgradeFactors (type ?p) \<noteq> None \<or> type ?p = ''Speed''
                \<longrightarrow> roundTrips decimalRuntime (slicedValue ?p)"
    using p by fast
  have 3: "upgradeSecondary decimalRuntime ?p = ?p"
    by (rule upgradeSecondary_spec [of ?p decimalRuntime, OF pre,
          THEN conjunct2, THEN conjunct2, THEN conjunct1, rule_format, OF p])
  from 1 2 3 4 show ?thesis by blast
qed



















lemma numAdd_assoc: "numAdd (numAdd a b) c = numAdd a (numAdd b c)"
  by (cases a; cases b; cases c) simp_all

lemma numAdd_zero_left: "numAdd (Num 0) x = x"
  by (cases x) simp_all

lemma numAdd_zero_right: "numAdd x (Num 0) = x"
  by (cases x) simp_all

lemma foldl_numAdd: "foldl numAdd a xs = numAdd a (foldr numAdd xs (Num 0))"
  by (induction xs arbitrary: a) (simp_all add: numAdd_zero_right numAdd_assoc)

lemma reduceSum_weightedSum:
  "reduceSum (map (\<lambda>t. numMul (property w t) (c t)) ts) = weightedSum w c ts"
proof -
  have "foldr numAdd (map (\<lambda>t. numMul (property w t) (c t)) ts) (Num 0) = weightedSum w c ts"
    by (induction ts) simp_all
  then show ?thesis
    by (simp add: reduceSum_def foldl_numAdd numAdd_zero_left)
qed

lemma getOptimizationValue_flat:
  assumes "displayType s \<noteq> ''Special Critical Chance''"
      and "optimizationStatTypes statTypeMap s = Some statTypes"
      and "\<not> isPercent s"
  shows "getOptimizationValue statTypeMap s ch =
           Inr (weightedSum (weight (target (optimizerSettings ch))) (\<lambda>t. value s) statTypes)"
proof -
  have "getOptimizationValue statTypeMap s ch =
          Inr (reduceSum (map (\<lambda>t. numMul (property (weight (target (optimizerSettings ch))) t)
                                    (value s)) statTypes))"
    using assms
    by (auto simp add: getOptimizationValue_def optimizationStatTypes_def Let_def
          split: if_splits)
  then show ?thesis
    by (simp only: reduceSum_weightedSum [where c = "\<lambda>t. value s"])
qed





lemma constructor_percent_mixed:
  "isPercent (constructor rt ty val rls) \<Longrightarrow>
     displayType (constructor rt ty val rls) \<in> set mixedTypes"
  by (simp add: constructor_isPercent constructor_displayType)

text \<open>
  Claim C3. For every Stat whose display type is \<open>Special Critical Chance\<close> and every
  character, \<open>getOptimizationValue\<close> returns exactly 0; for every Stat whose display type
  is \<open>Physical Critical Chance\<close>, the value returned is the \<open>critChance\<close> weight of the
  target times the value of the stat.
\<close>

theorem critical_chance_spec:
  assumes s: "s = constructor rt ty val rls"
  shows "(displayType s = ''Special Critical Chance'' \<longrightarrow>
            getOptimizationValue statTypeMap s ch = Inr (Num 0))
       \<and> (displayType s = ''Physical Critical Chance'' \<longrightarrow>
            getOptimizationValue statTypeMap s ch =
              Inr (numMul (property (weight (target (optimizerSettings ch))) ''critChance'')
                          (value s)))"
proof (intro conjI impI)
  assume "displayType s = ''Special Critical Chance''"
  then show "getOptimizationValue statTypeMap s ch = Inr (Num 0)"
    by (simp add: getOptimizationValue_def)
next
  assume p: "displayType s = ''Physical Critical Chance''"
  have "''Physical Critical Chance'' \<notin> set mixedTypes"
    by (simp add: mixedTypes_def)
  with p constructor_percent_mixed [of rt ty val rls] have flat: "\<not> isPercent s"
    unfolding s by auto
  have n: "displayType s \<noteq> ''Special Critical Chance''"
    using p by simp
  have t: "optimizationStatTypes statTypeMap s = Some [''critChance'']"
    using p by (simp add: optimizationStatTypes_def)
  show "getOptimizationValue statTypeMap s ch =
          Inr (numMul (property (weight (target (optimizerSettings ch))) ''critChance'') (value s))"
    unfolding getOptimizationValue_flat [OF n t flat]
    by (simp add: numAdd_zero_right)
qed

theorem critical_chance_spec_witness:
  "getOptimizationValue exampleStatTypeMap
     (constructor decimalRuntime ''Special Critical Chance %'' ''2%'' 1) exampleCharacter
       = Inr (Num 0)
   \<and> getOptimizationValue exampleStatTypeMap
     (constructor decimalRuntime ''Physical Critical Chance %'' ''1.5%'' 1) exampleCharacter
       = Inr (Num (9 / 2))"
proof -
  let ?sc = "constructor decimalRuntime ''Special Critical Chance %'' ''2%'' 1"
  let ?pc = "constructor decimalRuntime ''Physical Critical Chance %'' ''1.5%'' 1"
  have a: "displayType ?sc = ''Special Critical Chance''" by code_simp
  have b: "displayType ?pc = ''Physical Critical Chance''" by code_simp
  have v: "numMul (property (weight (target (optimizerSettings exampleCharacter))) ''critChance'')
             (value ?pc) = Num (9 / 2)"
    by code_simp
  have 1: "getOptimizationValue exampleStatTypeMap ?sc exampleCharacter = Inr (Num 0)"
    by (rule critical_chance_spec [OF refl, THEN conjunct1, rule_format, OF a])
  have "getOptimizationValue exampleStatTypeMap ?pc exampleCharacter =
          Inr (numMul (property (weight (target (optimizerSettings exampleCharacter))) ''critChance'')
                 (value ?pc))"
    by (rule critical_chance_spec [OF refl, THEN conjunct2, rule_format, OF b])
  then have 2: "getOptimizationValue exampleStatTypeMap ?pc exampleCharacter = Inr (Num (9 / 2))"
    by (simp only: v)
  from 1 2 show ?thesis by (rule conjI)
qed








section \<open>Properties of the actions on selected characters\<close>

lemma splice_remove_one:
  assumes "i < length xs"
  shows "arraySplice xs i 1 [] = ([xs ! i], take i xs @ drop (Suc i) xs)"
proof -
  have "take 1 (drop i xs) = [xs ! i]"
    using assms Cons_nth_drop_Suc [of i xs, symmetric] by simp
  moreover have "min 1 (length xs - i) = 1"
    using assms by simp
  moreover have "min i (length xs) = i"
    using assms by simp
  ultimately show ?thesis
    by (simp add: arraySplice_def Let_def)
qed

lemma splice_insert:
  "snd (arraySplice xs j 0 [v]) = take (min j (length xs)) xs @ [v] @ drop (min j (length xs)) xs"
  by (simp add: arraySplice_def Let_def)

lemma mset_splice_insert: "mset (snd (arraySplice xs j 0 [v])) = add_mset v (mset xs)"
proof -
  let ?n = "min j (length xs)"
  have "mset (take ?n xs @ drop ?n xs) = mset xs"
    by (simp only: append_take_drop_id)
  then have "mset (take ?n xs) + mset (drop ?n xs) = mset xs"
    by (simp only: mset_append)
  then show ?thesis
    by (simp add: splice_insert)
qed

lemma mset_remove_nth:
  "i < length xs \<Longrightarrow> add_mset (xs ! i) (mset (take i xs @ drop (Suc i) xs)) = mset xs"
proof -
  assume "i < length xs"
  then have "xs = take i xs @ xs ! i # drop (Suc i) xs"
    by (rule id_take_nth_drop)
  then have "mset xs = mset (take i xs @ xs ! i # drop (Suc i) xs)"
    by simp
  then show ?thesis by simp
qed

text \<open>
  Claim C7. For every profile, every \<open>fromIndex\<close> within the selected-characters list
  and every \<open>toIndex\<close> (a position or \<open>null\<close>), \<open>moveSelectedCharacter\<close> returns a
  profile whose selected-characters list holds the same entries with the same
  multiplicities, the rest of the profile being unchanged; when \<open>fromIndex\<close> equals
  \<open>toIndex\<close> the profile is returned unchanged.
\<close>

theorem moveSelectedCharacter_permutation:
  assumes "fromIndex < length (selectedCharacters p)"
  shows "\<exists>p'. moveSelectedCharacter fromIndex toIndex p = Inr p'
            \<and> mset (selectedCharacters p') = mset (selectedCharacters p)
            \<and> characters p' = characters p
            \<and> globalSettings p' = globalSettings p
            \<and> (toIndex = Some fromIndex \<longrightarrow> p' = p)"
proof (cases "Some fromIndex = toIndex")
  case True
  then show ?thesis by (auto simp: moveSelectedCharacter_def)
next
  case False
  let ?xs = "selectedCharacters p"
  let ?rest = "take fromIndex ?xs @ drop (Suc fromIndex) ?xs"
  have sp: "arraySplice ?xs fromIndex 1 [] = ([?xs ! fromIndex], ?rest)"
    using assms by (rule splice_remove_one)
  have rest: "add_mset (?xs ! fromIndex) (mset ?rest) = mset ?xs"
    using assms by (rule mset_remove_nth)
  show ?thesis
  proof (cases toIndex)
    case None
    then show ?thesis
      using False sp rest by (simp add: moveSelectedCharacter_def withSelectedCharacters_def)
  next
    case (Some to)
    then show ?thesis
      using False sp rest
      by (auto simp add: moveSelectedCharacter_def withSelectedCharacters_def mset_splice_insert)
  qed
qed

lemma example_length: "length (selectedCharacters exampleProfile) = 3"
  by (simp add: exampleProfile_def)

theorem moveSelectedCharacter_permutation_witness:
  "(0::nat) < length (selectedCharacters exampleProfile)
   \<and> (\<exists>p'. moveSelectedCharacter 0 (Some 2) exampleProfile = Inr p'
          \<and> mset (selectedCharacters p') = mset (selectedCharacters exampleProfile)
          \<and> map fst (selectedCharacters p') = [''LUKE'', ''VADER'', ''VADER''])
   \<and> moveSelectedCharacter 1 (Some 1) exampleProfile = Inr exampleProfile"
proof -
  have h0: "(0::nat) < length (selectedCharacters exampleProfile)"
    by (simp add: example_length)
  have h1: "(1::nat) < length (selectedCharacters exampleProfile)"
    by (simp add: example_length)
  from moveSelectedCharacter_permutation [OF h0, of "Some 2"]
  obtain p' where p': "moveSelectedCharacter 0 (Some 2) exampleProfile = Inr p'"
    and m: "mset (selectedCharacters p') = mset (selectedCharacters exampleProfile)"
    by auto
  have "map fst (selectedCharacters (projr (moveSelectedCharacter 0 (Some 2) exampleProfile)))
          = [''LUKE'', ''VADER'', ''VADER'']"
    by (simp add: moveSelectedCharacter_def arraySplice_def exampleProfile_def
          withSelectedCharacters_def Let_def)
  with p' have order: "map fst (selectedCharacters p') = [''LUKE'', ''VADER'', ''VADER'']"
    by simp
  from moveSelectedCharacter_permutation [OF h1, of "Some 1"]
  have same: "moveSelectedCharacter 1 (Some 1) exampleProfile = Inr exampleProfile"
    by auto
  from h0 p' m order same show ?thesis
    by auto
qed

text \<open>
  Claim C8. For every profile and every \<open>characterIndex\<close> smaller than the length of
  the selected-characters list, whose entry names a character of the profile,
  \<open>unselectCharacter\<close> removes exactly that entry from the selected list and sets the
  lock state of that character to Unlocked, leaving every other character of the profile
  unchanged; for every \<open>characterIndex\<close> greater than or equal to the length of the list,
  the profile is returned unchanged.
\<close>

theorem unselectCharacter_spec:
  "(\<forall>c. characterIndex < length (selectedCharacters p) \<longrightarrow>
        characters p (fst (selectedCharacters p ! characterIndex)) = Some c \<longrightarrow>
        (\<exists>p'. unselectCharacter characterIndex p = Inr p'
           \<and> selectedCharacters p' =
               take characterIndex (selectedCharacters p)
                 @ drop (Suc characterIndex) (selectedCharacters p)
           \<and> characters p' (fst (selectedCharacters p ! characterIndex)) =
               Some (c\<lparr>optimizerSettings := (optimizerSettings c)\<lparr>lockState := Unlocked\<rparr>\<rparr>)
           \<and> (\<forall>k. k \<noteq> fst (selectedCharacters p ! characterIndex) \<longrightarrow>
                  characters p' k = characters p k)
           \<and> globalSettings p' = globalSettings p))
   \<and> (characterIndex \<ge> length (selectedCharacters p) \<longrightarrow>
        unselectCharacter characterIndex p = Inr p)"
proof (intro conjI allI impI)
  fix c
  assume i: "characterIndex < length (selectedCharacters p)"
     and c: "characters p (fst (selectedCharacters p ! characterIndex)) = Some c"
  have sp: "arraySplice (selectedCharacters p) characterIndex 1 [] =
              ([selectedCharacters p ! characterIndex],
               take characterIndex (selectedCharacters p)
                 @ drop (Suc characterIndex) (selectedCharacters p))"
    using i by (rule splice_remove_one)
  show "\<exists>p'. unselectCharacter characterIndex p = Inr p'
           \<and> selectedCharacters p' =
               take characterIndex (selectedCharacters p)
                 @ drop (Suc characterIndex) (selectedCharacters p)
           \<and> characters p' (fst (selectedCharacters p ! characterIndex)) =
               Some (c\<lparr>optimizerSettings := (optimizerSettings c)\<lparr>lockState := Unlocked\<rparr>\<rparr>)
           \<and> (\<forall>k. k \<noteq> fst (selectedCharacters p ! characterIndex) \<longrightarrow>
                  characters p' k = characters p k)
           \<and> globalSettings p' = globalSettings p"
    using i c sp
    by (simp add: unselectCharacter_def withCharacters_def withSelectedCharacters_def
          withOptimizerSettings_def unlock_def)
next
  assume "length (selectedCharacters p) \<le> characterIndex"
  then show "unselectCharacter characterIndex p = Inr p"
    by (simp add: unselectCharacter_def)
qed

text \<open>
  Claim C9. For every profile and every \<open>characterIndex\<close> greater than or equal to the
  number of selected characters, both \<open>changeCharacterTarget\<close> and
  \<open>finishEditCharacterTarget\<close> return the profile unchanged.
\<close>

theorem out_of_range_target_spec:
  assumes "characterIndex \<ge> length (selectedCharacters p)"
  shows "changeCharacterTarget characterIndex tgt p = Inr p
       \<and> finishEditCharacterTarget withTarget characterIndex newTarget p = Inr p"
  using assms by (simp add: changeCharacterTarget_def finishEditCharacterTarget_def)

theorem unselectCharacter_spec_witness:
  "(\<exists>p'. unselectCharacter 1 exampleProfile = Inr p'
        \<and> map fst (selectedCharacters p') = [''VADER'', ''VADER'']
        \<and> map_option (\<lambda>c. lockState (optimizerSettings c)) (characters p' ''LUKE'') = Some Unlocked
        \<and> characters p' ''VADER'' = characters exampleProfile ''VADER'')
   \<and> unselectCharacter 3 exampleProfile = Inr exampleProfile"
proof -
  let ?c = "exampleCharacter\<lparr>baseID := ''LUKE''\<rparr>"
  have i: "(1::nat) < length (selectedCharacters exampleProfile)"
    by (simp add: example_length)
  have luke: "fst (selectedCharacters exampleProfile ! 1) = ''LUKE''"
    by (simp add: exampleProfile_def)
  have c: "characters exampleProfile (fst (selectedCharacters exampleProfile ! 1)) = Some ?c"
    unfolding luke by (simp add: exampleProfile_def)
  have rest: "map fst (take 1 (selectedCharacters exampleProfile)
                @ drop (Suc 1) (selectedCharacters exampleProfile)) = [''VADER'', ''VADER'']"
    by (simp add: exampleProfile_def)
  have other: "''VADER'' \<noteq> fst (selectedCharacters exampleProfile ! 1)"
    unfolding luke by simp
  have out: "(3::nat) \<ge> length (selectedCharacters exampleProfile)"
    by (simp add: example_length)
  from unselectCharacter_spec [of 1 exampleProfile, THEN conjunct1, rule_format, OF i c]
  obtain p' where all: "unselectCharacter 1 exampleProfile = Inr p'
      \<and> selectedCharacters p' = take 1 (selectedCharacters exampleProfile)
                @ drop (Suc 1) (selectedCharacters exampleProfile)
      \<and> characters p' (fst (selectedCharacters exampleProfile ! 1)) =
                Some (?c\<lparr>optimizerSettings := (optimizerSettings ?c)\<lparr>lockState := Unlocked\<rparr>\<rparr>)
      \<and> (\<forall>k. k \<noteq> fst (selectedCharacters exampleProfile ! 1) \<longrightarrow>
                  characters p' k = characters exampleProfile k)
      \<and> globalSettings p' = globalSettings exampleProfile" ..
  note p' = all [THEN conjunct1]
  note sel = all [THEN conjunct2, THEN conjunct1]
  note unl = all [THEN conjunct2, THEN conjunct2, THEN conjunct1]
  note frame = all [THEN conjunct2, THEN conjunct2, THEN conjunct2, THEN conjunct1]
  have 1: "map fst (selectedCharacters p') = [''VADER'', ''VADER'']"
    unfolding sel by (rule rest)
  have 2: "map_option (\<lambda>c. lockState (optimizerSettings c)) (characters p' ''LUKE'') = Some Unlocked"
    using unl unfolding luke by simp
  have 3: "characters p' ''VADER'' = characters exampleProfile ''VADER''"
    by (rule frame [rule_format, OF other])
  have 4: "unselectCharacter 3 exampleProfile = Inr exampleProfile"
    by (rule unselectCharacter_spec [of 3 exampleProfile, THEN conjunct2, rule_format, OF out])
  show ?thesis
  proof (intro conjI exI)
    show "unselectCharacter 1 exampleProfile = Inr p'" by (rule p')
    show "map fst (selectedCharacters p') = [''VADER'', ''VADER'']" by (rule 1)
    show "map_option (\<lambda>c. lockState (optimizerSettings c)) (characters p' ''LUKE'') = Some Unlocked"
      by (rule 2)
    show "characters p' ''VADER'' = characters exampleProfile ''VADER''" by (rule 3)
    show "unselectCharacter 3 exampleProfile = Inr exampleProfile" by (rule 4)
  qed
qed

theorem out_of_range_target_spec_witness:
  "(3::nat) \<ge> length (selectedCharacters exampleProfile)
   \<and> changeCharacterTarget 3 exampleTarget exampleProfile = Inr exampleProfile
   \<and> finishEditCharacterTarget (\<lambda>os t. os\<lparr>target := t\<rparr>) 3 exampleTarget exampleProfile
       = Inr exampleProfile"
proof -
  have out: "(3::nat) \<ge> length (selectedCharacters exampleProfile)"
    by (simp add: example_length)
  note spec = out_of_range_target_spec [OF out]
  show ?thesis
    by (intro conjI) (rule out, rule spec [THEN conjunct1], rule spec [THEN conjunct2])
qed

end
